theory Spec2Isabelle
  imports Complex_Main "HOL-Library.Multiset"
begin

section \<open>Python values and exceptions\<close>

text \<open>
  The notebook \<^verbatim>\<open>joule-profiler-benchmark.py\<close> drives an external energy profiler
  over a sweep of polling frequencies and aggregates the measurements with polars.

  A Python number is an unbounded integer or a float. Floats are modelled by the real
  number they denote: overflow and the sign of zero are not modelled, and rounding is
  modelled only where the order of the rows is studied (the section on arithmetic
  with rounding). Elsewhere a statement about a float is a statement about which
  operation the code applies to which operands, not about the last bit of its result.
\<close>

datatype pynum = PInt int | PFloat real

fun num_val :: "pynum \<Rightarrow> real" where
  "num_val (PInt i) = real_of_int i"
| "num_val (PFloat r) = r"

text \<open>
  One argument of a command line: a text, or the text that \<^verbatim>\<open>str\<close> gives for a float.
  \<^verbatim>\<open>str\<close> of a float is the shortest decimal that reads back as the same float; the
  model keeps the float instead of that decimal.
\<close>

datatype arg = Text string | FloatRepr real

text \<open>
  The exceptions that the modelled code can raise. \<open>CalledProcessError\<close> is what
  \<^verbatim>\<open>subprocess.run(..., check=True)\<close> raises on a non-zero exit status; it carries
  the return code, the command, and the captured standard output and standard error.
  \<open>UnicodeDecodeError\<close> is what \<^verbatim>\<open>subprocess.run(..., text=True)\<close> raises when the
  captured output is not text. \<open>FileNotFoundError\<close>, \<open>NoDataError\<close> and \<open>ComputeError\<close>
  are what \<^verbatim>\<open>pl.read_csv\<close> raises on a missing file, on an empty file and on a file it
  cannot parse. \<open>SchemaError\<close> is what \<^verbatim>\<open>pl.concat\<close> raises on tables whose columns
  differ in type, and \<open>InvalidOperationError\<close> what polars raises on the division of a
  column of strings.
\<close>

datatype error =
    ValueError
  | ZeroDivisionError
  | CalledProcessError int "arg list" string string
  | UnicodeDecodeError
  | FileNotFoundError
  | NoDataError
  | ComputeError
  | SchemaError
  | InvalidOperationError


fun captured_stderr :: "error \<Rightarrow> string option" where
  "captured_stderr (CalledProcessError rc cmd out err) = Some err"
| "captured_stderr e = None"

section \<open>The frequency sequence\<close>

text \<open>
  \<^verbatim>\<open>range(start, stop, step)\<close>: the values \<open>start, start + step, ...\<close> strictly
  before \<open>stop\<close> in the direction of \<open>step\<close>; a zero step raises \<open>ValueError\<close>.
\<close>

function range_from :: "int \<Rightarrow> int \<Rightarrow> int \<Rightarrow> int list" where
  "range_from i stop step =
     (if 0 < step \<and> i < stop then i # range_from (i + step) stop step
      else if step < 0 \<and> stop < i then i # range_from (i + step) stop step
      else [])"
  by pat_completeness auto
termination
  by (relation "measure (\<lambda>(i, stop, step). nat (if 0 < step then stop - i else i - stop))")
    auto

declare range_from.simps [simp del]

definition py_range :: "int \<Rightarrow> int \<Rightarrow> int \<Rightarrow> error + int list" where
  "py_range start stop step =
     (if step = 0 then Inl ValueError else Inr (range_from start stop step))"

text \<open>
  \<^verbatim>\<open>
  def yield_every(step: int, n: int):
      for i in range(0, n * step + 1, step):
          yield i
  \<close>
  The generator is modelled by the list of the values it yields.
\<close>

definition yield_every :: "int \<Rightarrow> int \<Rightarrow> error + int list" where
  "yield_every step n = py_range 0 (n * step + 1) step"

section \<open>Frequency to interval\<close>

text \<open>
  Python's true division \<^verbatim>\<open>a / b\<close> on numbers: a float, or \<open>ZeroDivisionError\<close>.
\<close>

definition py_truediv :: "pynum \<Rightarrow> pynum \<Rightarrow> error + pynum" where
  "py_truediv a b =
     (if num_val b = 0 then Inl ZeroDivisionError
      else Inr (PFloat (num_val a / num_val b)))"

text \<open>
  \<^verbatim>\<open>
  def hz_to_s(hz):
      return 0 if not hz or hz <= 0 else 1 / hz
  \<close>
  \<^verbatim>\<open>not hz\<close> holds for \<^verbatim>\<open>None\<close> and for a zero; \<^verbatim>\<open>or\<close> evaluates its second
  operand only when the first is false, so \<^verbatim>\<open>None <= 0\<close> is never evaluated.
\<close>

definition hz_to_s :: "pynum option \<Rightarrow> error + pynum" where
  "hz_to_s hz =
     (case hz of
        None \<Rightarrow> Inr (PInt 0)
      | Some v \<Rightarrow>
          if num_val v = 0 \<or> num_val v \<le> 0 then Inr (PInt 0)
          else py_truediv (PInt 1) v)"

section \<open>Building the profiler command\<close>

text \<open>\<^verbatim>\<open>str\<close> of a Python integer is its decimal numeral.\<close>

definition digit_char :: "nat \<Rightarrow> char" where
  "digit_char d = ''0123456789'' ! d"

function str_nat :: "nat \<Rightarrow> string" where
  "str_nat n =
     (if n < 10 then [digit_char n] else str_nat (n div 10) @ [digit_char (n mod 10)])"
  by pat_completeness auto
termination
  by (relation "measure id") auto

declare str_nat.simps [simp del]

definition str_int :: "int \<Rightarrow> string" where
  "str_int i = (if i < 0 then CHR ''-'' # str_nat (nat (- i)) else str_nat (nat i))"

fun py_str :: "pynum \<Rightarrow> arg" where
  "py_str (PInt i) = Text (str_int i)"
| "py_str (PFloat r) = FloatRepr r"

definition JOULE_PROFILER :: string where
  "JOULE_PROFILER = ''./joule-profiler/target/debug/joule-profiler''"

text \<open>\<^verbatim>\<open>str(Path(tmpdir) / "results.csv")\<close>\<close>

definition csv_path :: "string \<Rightarrow> string" where
  "csv_path dir = dir @ ''/results.csv''"

text \<open>
  The first half of \<^verbatim>\<open>run_joule_profiler(command, rapl_polling=None, extra_args=None)\<close>,
  up to the call of the subprocess: the command line it builds.
  \<^verbatim>\<open>
      extra_args = extra_args or []
      if rapl_polling == 0:
          rapl_polling = None
      ...
          cmd = ["sudo", "-S", JOULE_PROFILER, "simple", "--csv", "--jouleit-file",
                 str(csv_path)]
          polling_s = hz_to_s(rapl_polling)
          if rapl_polling is not None:
              cmd += ["--rapl-polling", str(polling_s)]
          cmd += extra_args
          cmd += ["--", *command]
  \<close>
  The parameter \<^verbatim>\<open>command\<close> is called \<open>workload\<close> here, since \<open>command\<close> is also a
  column of the profiler's table.
\<close>

definition profiler_cmd ::
  "string \<Rightarrow> string list \<Rightarrow> pynum option \<Rightarrow> string list option \<Rightarrow> error + arg list" where
  "profiler_cmd dir workload rapl_polling extra_args =
     (let extra_args = (case extra_args of None \<Rightarrow> [] | Some xs \<Rightarrow> xs);
          rapl_polling =
            (case rapl_polling of
               None \<Rightarrow> None
             | Some v \<Rightarrow> if num_val v = 0 then None else Some v);
          cmd = map Text [''sudo'', ''-S'', JOULE_PROFILER, ''simple'', ''--csv'',
                 ''--jouleit-file'', csv_path dir]
      in case hz_to_s rapl_polling of
           Inl e \<Rightarrow> Inl e
         | Inr polling_s \<Rightarrow>
             (let cmd = (if rapl_polling \<noteq> None
                         then cmd @ [Text ''--rapl-polling'', py_str polling_s]
                         else cmd);
                  cmd = cmd @ map Text extra_args;
                  cmd = cmd @ Text ''--'' # map Text workload
              in Inr cmd))"

section \<open>Tables\<close>

text \<open>
  A cell of a polars \<^verbatim>\<open>Float64\<close> column: a finite value, an infinity or NaN. Finite
  values are exact reals (no rounding, one zero). Division by a zero gives an infinity
  or NaN, as IEEE division does; it never raises.
\<close>

datatype f64 = Fin real | PInf | NInf | NaN

fun fadd :: "f64 \<Rightarrow> f64 \<Rightarrow> f64" where
  "fadd (Fin a) (Fin b) = Fin (a + b)"
| "fadd NaN y = NaN"
| "fadd x NaN = NaN"
| "fadd PInf NInf = NaN"
| "fadd NInf PInf = NaN"
| "fadd PInf y = PInf"
| "fadd x PInf = PInf"
| "fadd NInf y = NInf"
| "fadd x NInf = NInf"

fun fdiv :: "f64 \<Rightarrow> f64 \<Rightarrow> f64" where
  "fdiv (Fin a) (Fin b) =
     (if b = 0 then (if a = 0 then NaN else if 0 < a then PInf else NInf)
      else Fin (a / b))"
| "fdiv NaN y = NaN"
| "fdiv x NaN = NaN"
| "fdiv (Fin a) y = Fin 0"
| "fdiv PInf (Fin b) = (if 0 \<le> b then PInf else NInf)"
| "fdiv NInf (Fin b) = (if 0 \<le> b then NInf else PInf)"
| "fdiv x y = NaN"

fun is_infinite :: "f64 \<Rightarrow> bool" where
  "is_infinite PInf = True"
| "is_infinite NInf = True"
| "is_infinite x = False"

text \<open>
  One row of the semicolon-separated file the profiler writes: the energy of the
  \<open>CORE_0\<close> domain in microjoules, the raw \<open>measure_delta\<close>, \<open>measure_count\<close>,
  \<open>duration_ms\<close>, \<open>command\<close> and \<open>exit_code\<close>. The other energy domains of the file
  are left out: the aggregation selects \<open>CORE_0\<close> only. The fields carry the prefix
  \<open>csv_\<close> because the later tables have columns of the same names.
\<close>

record csv_row =
  csv_CORE_0 :: f64
  csv_measure_delta :: f64
  csv_measure_count :: f64
  csv_duration_ms :: f64
  csv_command :: string
  csv_exit_code :: int

text \<open>
  The columns every later table keeps; the table after \<^verbatim>\<open>df_removed_unused_columns\<close>
  (also the shape of the grouped table); the table \<^verbatim>\<open>generate_iters\<close> returns; and
  the table \<^verbatim>\<open>df_aggregate\<close> returns.
\<close>

record freq_row =
  expected_frequency :: int
  CORE_0 :: f64
  measure_delta :: f64

record trial_row = freq_row +
  measure_count :: f64
  duration_ms :: f64

record tagged_row = trial_row +
  command :: string
  exit_code :: int

record agg_row = freq_row +
  real_frequency :: f64
  core_energy :: f64

section \<open>Running the profiler\<close>

text \<open>
  What the operating system does with one invocation: the name of the temporary
  directory, the exit status of the subprocess, what it wrote to its standard output
  and standard error, and the state of the file at \<open>csv_path\<close> when the subprocess has
  exited. A captured output is \<open>Some\<close> text when its bytes decode in the encoding of
  the locale, and \<open>None\<close> when they do not. A file is missing, empty (no bytes),
  unparsable, or a table; a table whose file has a header line and no data line has
  no rows.
\<close>

datatype artifact = Missing | Empty | Unparsable | Table "csv_row list"

record invocation =
  tmpdir :: string
  returncode :: int
  stdout :: "string option"
  stderr :: "string option"
  artifact :: artifact

text \<open>
  \<^verbatim>\<open>pl.read_csv(csv_path, separator=";")\<close> is polars' reader: it raises
  \<open>FileNotFoundError\<close> when there is no file, \<open>NoDataError\<close> when the file is empty,
  a polars error when it cannot parse the file (\<open>Unparsable\<close> is, by definition, a
  file on which it does), and returns the table otherwise.
\<close>

fun read_csv :: "artifact \<Rightarrow> error + csv_row list" where
  "read_csv Missing = Inl FileNotFoundError"
| "read_csv Empty = Inl NoDataError"
| "read_csv Unparsable = Inl ComputeError"
| "read_csv (Table rows) = Inr rows"

text \<open>
  \<^verbatim>\<open>subprocess.run(cmd, text=True, stdout=subprocess.PIPE, stderr=subprocess.PIPE,
  check=True)\<close> waits for the subprocess and decodes both captured outputs; an output
  that does not decode raises \<open>UnicodeDecodeError\<close>. Only then is the exit status
  looked at: with \<^verbatim>\<open>check=True\<close> a non-zero status raises \<open>CalledProcessError\<close>.
  Otherwise the call returns the two texts.
\<close>

definition subprocess_run :: "invocation \<Rightarrow> arg list \<Rightarrow> error + string \<times> string" where
  "subprocess_run proc cmd =
     (case (stdout proc, stderr proc) of
        (Some out, Some err) \<Rightarrow>
          if returncode proc \<noteq> 0
          then Inl (CalledProcessError (returncode proc) cmd out err)
          else Inr (out, err)
      | _ \<Rightarrow> Inl UnicodeDecodeError)"

text \<open>
  \<^verbatim>\<open>
          proc = subprocess.run(cmd, text=True, stdout=subprocess.PIPE,
                                stderr=subprocess.PIPE, check=True)
          return pl.read_csv(csv_path, separator=";")
  \<close>
  Nothing in the function catches an exception.
\<close>

definition run_joule_profiler ::
  "invocation \<Rightarrow> string list \<Rightarrow> pynum option \<Rightarrow> string list option
    \<Rightarrow> error + csv_row list" where
  "run_joule_profiler proc workload rapl_polling extra_args =
     (case profiler_cmd (tmpdir proc) workload rapl_polling extra_args of
        Inl e \<Rightarrow> Inl e
      | Inr cmd \<Rightarrow>
          (case subprocess_run proc cmd of
             Inl e \<Rightarrow> Inl e
           | Inr captured \<Rightarrow> read_csv (artifact proc)))"

section \<open>Collecting the trials\<close>

text \<open>
  \<^verbatim>\<open>pl.concat(dfs)\<close> stacks the tables of a list; on an empty list it raises
  \<open>ValueError\<close>.
\<close>

definition pl_concat :: "'a list list \<Rightarrow> error + 'a list" where
  "pl_concat dfs = (if dfs = [] then Inl ValueError else Inr (concat dfs))"

text \<open>
  The tables of the trials of one frequency come from files. polars reads the columns
  of a table without rows as columns of strings, and the columns of numbers of a
  table with rows as columns of numbers (the model takes the cells of one column to be
  of one numeric type in every file). \<^verbatim>\<open>pl.concat\<close> raises \<open>SchemaError\<close> on tables
  whose columns differ in type: here, when a table without rows meets one with rows.
\<close>

definition pl_concat_csv :: "csv_row list list \<Rightarrow> error + csv_row list" where
  "pl_concat_csv dfs =
     (if dfs = [] then Inl ValueError
      else if [] \<in> set dfs \<and> concat dfs \<noteq> [] then Inl SchemaError
      else Inr (concat dfs))"

text \<open>
  The inner loop of \<^verbatim>\<open>generate_iters\<close>:
  \<^verbatim>\<open>
          iter_dfs = []
          for _ in range(nb_iterations):
              res = run_joule_profiler(
                  command=["python3", "nbody.py", str(nbody_value)],
                  rapl_polling=polling)
              iter_dfs.append(res)
              time.sleep(sleep_time)
  \<close>
  The state is the number \<open>calls\<close> of subprocesses started so far; \<open>os calls\<close> is what
  the operating system does with the next one. An exception leaves the loop at once.
  The pause between two trials has no effect on the tables and is left out.
\<close>

fun run_trials ::
  "(nat \<Rightarrow> invocation) \<Rightarrow> string list \<Rightarrow> int \<Rightarrow> nat \<Rightarrow> nat
    \<Rightarrow> csv_row list list \<Rightarrow> (error + csv_row list list) \<times> nat" where
  "run_trials os workload polling 0 calls iter_dfs = (Inr iter_dfs, calls)"
| "run_trials os workload polling (Suc k) calls iter_dfs =
     (case run_joule_profiler (os calls) workload (Some (PInt polling)) None of
        Inl e \<Rightarrow> (Inl e, Suc calls)
      | Inr res \<Rightarrow>
          run_trials os workload polling k (Suc calls) (iter_dfs @ [res]))"

text \<open>
  \<^verbatim>\<open>
          df_polling = df_polling.with_columns(pl.lit(polling).alias("expected_frequency"))
          df_polling = df_polling.with_columns(
              (pl.col("measure_delta") / 1000).alias("measure_delta"))
  \<close>
  On one row, \<open>tag_polling\<close>. On a table without rows \<open>measure_delta\<close> is a column of
  strings, and its division raises \<open>InvalidOperationError\<close>.
\<close>

definition tag_polling :: "int \<Rightarrow> csv_row \<Rightarrow> tagged_row" where
  "tag_polling polling r =
     \<lparr>expected_frequency = polling,
      CORE_0 = csv_CORE_0 r,
      measure_delta = fdiv (csv_measure_delta r) (Fin 1000),
      measure_count = csv_measure_count r,
      duration_ms = csv_duration_ms r,
      command = csv_command r,
      exit_code = csv_exit_code r\<rparr>"

text \<open>The outer loop, \<^verbatim>\<open>for polling in tqdm(polling_function)\<close>.\<close>

fun sweep ::
  "(nat \<Rightarrow> invocation) \<Rightarrow> string list \<Rightarrow> nat \<Rightarrow> int list \<Rightarrow> nat
    \<Rightarrow> tagged_row list list \<Rightarrow> (error + tagged_row list list) \<times> nat" where
  "sweep os workload nb [] calls dfs = (Inr dfs, calls)"
| "sweep os workload nb (polling # rest) calls dfs =
     (case run_trials os workload polling nb calls [] of
        (Inl e, calls') \<Rightarrow> (Inl e, calls')
      | (Inr iter_dfs, calls') \<Rightarrow>
          (case pl_concat_csv iter_dfs of
             Inl e \<Rightarrow> (Inl e, calls')
           | Inr df_polling \<Rightarrow>
               if df_polling = [] then (Inl InvalidOperationError, calls')
               else sweep os workload nb rest calls'
                      (dfs @ [map (tag_polling polling) df_polling])))"

text \<open>
  \<^verbatim>\<open>generate_iters(nb_iterations, sleep_time, polling_function, nbody_value)\<close> returns
  \<^verbatim>\<open>pl.concat(dfs)\<close>. The model returns, with the table or the exception, the number
  of subprocesses that were started. \<^verbatim>\<open>range(nb_iterations)\<close> is empty for a negative
  count.
\<close>

definition generate_iters ::
  "(nat \<Rightarrow> invocation) \<Rightarrow> int \<Rightarrow> int list \<Rightarrow> int
    \<Rightarrow> (error + tagged_row list) \<times> nat" where
  "generate_iters os nb_iterations polling_function nbody_value =
     (case sweep os [''python3'', ''nbody.py'', str_int nbody_value]
             (nat nb_iterations) polling_function 0 [] of
        (Inl e, calls) \<Rightarrow> (Inl e, calls)
      | (Inr dfs, calls) \<Rightarrow> (pl_concat dfs, calls))"

section \<open>Aggregation\<close>

text \<open>\<^verbatim>\<open>df.drop(["command", "exit_code"])\<close>\<close>

definition df_removed_unused_columns :: "tagged_row list \<Rightarrow> trial_row list" where
  "df_removed_unused_columns df =
     map (\<lambda>r. \<lparr>expected_frequency = expected_frequency r,
                CORE_0 = CORE_0 r,
                measure_delta = measure_delta r,
                measure_count = measure_count r,
                duration_ms = duration_ms r\<rparr>) df"

text \<open>
  \<^verbatim>\<open>pl.mean(c)\<close> over the rows of one group: the sum of the cells divided by their
  number.
\<close>

definition pl_mean :: "f64 list \<Rightarrow> f64" where
  "pl_mean xs = fdiv (foldl fadd (Fin 0) xs) (Fin (real (length xs)))"

text \<open>
  \<^verbatim>\<open>
  def df_group_by_expected_frequency(df):
      return df.group_by("expected_frequency").agg(
          [pl.mean(c) for c in df.columns if c != "expected_frequency"])
  \<close>
  One row for each distinct \<open>expected_frequency\<close>. polars leaves the order of the
  groups open; here they come in the order \<open>remdups\<close> gives.
\<close>

definition df_group_by_expected_frequency :: "trial_row list \<Rightarrow> trial_row list" where
  "df_group_by_expected_frequency df =
     map (\<lambda>k. let part = filter (\<lambda>r. expected_frequency r = k) df
              in \<lparr>expected_frequency = k,
                  CORE_0 = pl_mean (map CORE_0 part),
                  measure_delta = pl_mean (map measure_delta part),
                  measure_count = pl_mean (map measure_count part),
                  duration_ms = pl_mean (map duration_ms part)\<rparr>)
       (remdups (map expected_frequency df))"

text \<open>
  \<^verbatim>\<open>
  def df_aggregate(df):
      df = df.select(["expected_frequency", "CORE_0", "measure_count", "duration_ms",
                      "measure_delta"])
      df = df.with_columns([
          (1000 / pl.col("measure_delta")).alias("real_frequency"),
          (pl.col("CORE_0") / _MICRO_JOULE_TO_JOULE_RATIO).alias("core_energy")])
      df = df.with_columns([
          pl.when(pl.col("expected_frequency") == 0).then(0)
            .otherwise(pl.col("real_frequency")).alias("real_frequency")])
      df = df.drop(["measure_count", "duration_ms"])
      df = df.select(["real_frequency", *[c for c in df.columns if c != "real_frequency"]])
      return df
  \<close>
  Nothing in the function raises on a value of a cell.
\<close>

definition MICRO_JOULE_TO_JOULE_RATIO :: real where
  "MICRO_JOULE_TO_JOULE_RATIO = 1000000"

definition df_aggregate :: "trial_row list \<Rightarrow> agg_row list" where
  "df_aggregate df =
     map (\<lambda>r. let real_frequency0 = fdiv (Fin 1000) (measure_delta r);
                  core_energy0 = fdiv (CORE_0 r) (Fin MICRO_JOULE_TO_JOULE_RATIO);
                  real_frequency1 =
                    (if expected_frequency r = 0 then Fin 0 else real_frequency0)
              in \<lparr>expected_frequency = expected_frequency r,
                  CORE_0 = CORE_0 r,
                  measure_delta = measure_delta r,
                  real_frequency = real_frequency1,
                  core_energy = core_energy0\<rparr>) df"

section \<open>Arithmetic with rounding\<close>










section \<open>Properties of the frequency sequence\<close>

lemma range_from_multiples:
  assumes "0 < step" and "j \<le> Suc n"
  shows "range_from (int j * step) (int n * step + 1) step =
    map (\<lambda>k. int k * step) [j..<Suc n]"
  using assms
proof (induction "Suc n - j" arbitrary: j)
  case 0
  then have j: "j = Suc n" by simp
  have "\<not> (int (Suc n) * step < int n * step + 1)"
    using \<open>0 < step\<close> by (simp add: algebra_simps)
  then show ?case
    using \<open>0 < step\<close> j by (subst range_from.simps) simp
next
  case (Suc d)
  then have lt: "j < Suc n" by simp
  then have "int j \<le> int n" by simp
  then have "int j * step \<le> int n * step"
    using \<open>0 < step\<close> by (simp add: mult_right_mono)
  then have below: "int j * step < int n * step + 1" by simp
  have next_val: "int j * step + step = int (Suc j) * step"
    by (simp add: algebra_simps)
  have IH: "range_from (int (Suc j) * step) (int n * step + 1) step =
    map (\<lambda>k. int k * step) [Suc j..<Suc n]"
    using Suc.hyps(1) [of "Suc j"] Suc.hyps(2) Suc.prems lt by simp
  have "range_from (int j * step) (int n * step + 1) step =
    int j * step # range_from (int (Suc j) * step) (int n * step + 1) step"
    using \<open>0 < step\<close> below next_val by (subst range_from.simps) simp
  also have "\<dots> = map (\<lambda>k. int k * step) [j..<Suc n]"
    using IH lt by (simp add: upt_conv_Cons)
  finally show ?case .
qed

text \<open>
  C6 (as stated, for every step): with a negative step and count 0 the generator
  yields nothing at all, not the single value 0 (and a zero step raises
  \<open>ValueError\<close>).
\<close>

theorem yield_every_negative_step_counterexample:
  "yield_every (- 1) 0 = Inr [] \<and> yield_every (- 1) 0 \<noteq> Inr [0]"
  by (simp add: yield_every_def py_range_def range_from.simps)

text \<open>
  C6 (amended): for every count \<open>n \<ge> 0\<close> and every step \<open>\<ge> 1\<close>, \<open>yield_every step n\<close>
  yields exactly the \<open>n + 1\<close> values \<open>0, step, 2 * step, ..., n * step\<close> in that order.
\<close>

theorem yield_every_values:
  assumes "1 \<le> step" and "0 \<le> n"
  shows "yield_every step n = Inr (map (\<lambda>k. int k * step) [0..<Suc (nat n)])
    \<and> (\<forall>xs. yield_every step n = Inr xs \<longrightarrow> length xs = nat n + 1)"
proof -
  have "range_from (int 0 * step) (int (nat n) * step + 1) step =
    map (\<lambda>k. int k * step) [0..<Suc (nat n)]"
    using assms by (intro range_from_multiples) simp_all
  then have "yield_every step n = Inr (map (\<lambda>k. int k * step) [0..<Suc (nat n)])"
    using assms by (simp add: yield_every_def py_range_def)
  then show ?thesis by simp
qed

theorem yield_every_values_witness:
  "yield_every 1000 2 = Inr [0, 1000, 2000] \<and> yield_every 7 0 = Inr [0]"
  using yield_every_values [of 1000 2] yield_every_values [of 7 0]
  by (simp add: upt_rec)

section \<open>Properties of the conversion to an interval\<close>

text \<open>
  C2: \<^verbatim>\<open>hz_to_s\<close> returns 0 when given 0 (or \<^verbatim>\<open>None\<close>), returns \<open>1 / f\<close> for every
  input \<open>f > 0\<close>, and returns 0 for every negative input; it never raises, and never
  divides by zero.
\<close>

theorem hz_to_s_policy:
  "hz_to_s None = Inr (PInt 0)
   \<and> (num_val v = 0 \<longrightarrow> hz_to_s (Some v) = Inr (PInt 0))
   \<and> (0 < num_val v \<longrightarrow> hz_to_s (Some v) = Inr (PFloat (1 / num_val v)))
   \<and> (num_val v < 0 \<longrightarrow> hz_to_s (Some v) = Inr (PInt 0))"
  by (simp add: hz_to_s_def py_truediv_def)

theorem hz_to_s_policy_witness:
  "hz_to_s (Some (PInt 0)) = Inr (PInt 0)
   \<and> hz_to_s (Some (PInt 4)) = Inr (PFloat (1 / 4))
   \<and> hz_to_s (Some (PFloat (- 5 / 2))) = Inr (PInt 0)"
  using hz_to_s_policy [of "PInt 0"] hz_to_s_policy [of "PInt 4"]
    hz_to_s_policy [of "PFloat (- 5 / 2)"]
  by simp

lemma hz_to_s_total: "\<exists>s. hz_to_s hz = Inr s"
  by (auto simp: hz_to_s_def py_truediv_def split: option.splits)

section \<open>Properties of the profiler command\<close>

lemma str_int_zero: "str_int 0 = ''0''"
  by (simp add: str_int_def str_nat.simps digit_char_def)

lemma csv_path_not_flag: "csv_path dir \<noteq> ''--rapl-polling''"
proof
  assume "csv_path dir = ''--rapl-polling''"
  then have "last (csv_path dir) = last ''--rapl-polling''" by simp
  then show False by (simp add: csv_path_def)
qed

lemma flag_not_in_base:
  "Text ''--rapl-polling'' \<notin>
    set (map Text [''sudo'', ''-S'', JOULE_PROFILER, ''simple'', ''--csv'', ''--jouleit-file'',
      csv_path dir])"
  using csv_path_not_flag [of dir] by (simp add: JOULE_PROFILER_def)

lemma profiler_cmd_total: "\<exists>cmd. profiler_cmd dir workload rapl_polling extra_args = Inr cmd"
proof -
  obtain s where "hz_to_s (case rapl_polling of None \<Rightarrow> None
      | Some v \<Rightarrow> if num_val v = 0 then None else Some v) = Inr s"
    using hz_to_s_total by blast
  then show ?thesis by (simp add: profiler_cmd_def Let_def)
qed

text \<open>
  C3 (as stated, for every non-zero frequency): with the frequency \<open>-5\<close> the flag is
  there, but its value is \<open>0\<close>, not the interval \<open>1 / (-5)\<close>.
\<close>

theorem profiler_cmd_nonzero_counterexample:
  "profiler_cmd ''/tmp/t'' [''python3'', ''nbody.py'', ''500''] (Some (PInt (- 5))) None =
     Inr (map Text [''sudo'', ''-S'', JOULE_PROFILER, ''simple'', ''--csv'', ''--jouleit-file'',
            ''/tmp/t/results.csv'', ''--rapl-polling'', ''0'', ''--'', ''python3'',
            ''nbody.py'', ''500''])
   \<and> profiler_cmd ''/tmp/t'' [''python3'', ''nbody.py'', ''500''] (Some (PInt (- 5))) None \<noteq>
     Inr (map Text [''sudo'', ''-S'', JOULE_PROFILER, ''simple'', ''--csv'', ''--jouleit-file'',
            ''/tmp/t/results.csv'', ''--rapl-polling'']
          @ [FloatRepr (1 / num_val (PInt (- 5)))]
          @ map Text [''--'', ''python3'', ''nbody.py'', ''500''])"
  by (simp add: profiler_cmd_def hz_to_s_def str_int_zero csv_path_def)

text \<open>
  C3 (amended): when the requested frequency is \<^verbatim>\<open>None\<close> or 0, the command that
  \<^verbatim>\<open>run_joule_profiler\<close> builds has no polling flag at all: it is the fixed prefix,
  the extra arguments, \<open>--\<close> and the workload, and \<open>--rapl-polling\<close> occurs in it only
  if the caller put it among the extra arguments or the workload. When the requested
  frequency is positive, the flag follows the prefix, with the interval
  \<open>1 / frequency\<close> as its value.
\<close>

theorem profiler_cmd_polling_flag:
  "(rapl_polling = None \<or> (\<exists>v. rapl_polling = Some v \<and> num_val v = 0) \<longrightarrow>
      profiler_cmd dir workload rapl_polling extra_args =
        Inr (map Text [''sudo'', ''-S'', JOULE_PROFILER, ''simple'', ''--csv'',
               ''--jouleit-file'', csv_path dir]
             @ map Text (case extra_args of None \<Rightarrow> [] | Some xs \<Rightarrow> xs)
             @ Text ''--'' # map Text workload)
      \<and> (\<forall>cmd. profiler_cmd dir workload rapl_polling extra_args = Inr cmd \<longrightarrow>
           (Text ''--rapl-polling'' \<in> set cmd \<longleftrightarrow>
            ''--rapl-polling'' \<in> set (case extra_args of None \<Rightarrow> [] | Some xs \<Rightarrow> xs)
              \<union> set workload)))
   \<and> (\<forall>v. rapl_polling = Some v \<and> 0 < num_val v \<longrightarrow>
      profiler_cmd dir workload rapl_polling extra_args =
        Inr (map Text [''sudo'', ''-S'', JOULE_PROFILER, ''simple'', ''--csv'',
               ''--jouleit-file'', csv_path dir]
             @ [Text ''--rapl-polling'', FloatRepr (1 / num_val v)]
             @ map Text (case extra_args of None \<Rightarrow> [] | Some xs \<Rightarrow> xs)
             @ Text ''--'' # map Text workload))"
proof -
  have off: "profiler_cmd dir workload rapl_polling extra_args =
        Inr (map Text [''sudo'', ''-S'', JOULE_PROFILER, ''simple'', ''--csv'',
               ''--jouleit-file'', csv_path dir]
             @ map Text (case extra_args of None \<Rightarrow> [] | Some xs \<Rightarrow> xs)
             @ Text ''--'' # map Text workload)"
    if "rapl_polling = None \<or> (\<exists>v. rapl_polling = Some v \<and> num_val v = 0)"
    using that by (auto simp: profiler_cmd_def hz_to_s_def)
  have absent: "Text ''--rapl-polling'' \<in> set cmd \<longleftrightarrow>
      ''--rapl-polling'' \<in> set (case extra_args of None \<Rightarrow> [] | Some xs \<Rightarrow> xs) \<union> set workload"
    if "rapl_polling = None \<or> (\<exists>v. rapl_polling = Some v \<and> num_val v = 0)"
      and "profiler_cmd dir workload rapl_polling extra_args = Inr cmd" for cmd
  proof -
    have "cmd = map Text [''sudo'', ''-S'', JOULE_PROFILER, ''simple'', ''--csv'',
               ''--jouleit-file'', csv_path dir]
             @ map Text (case extra_args of None \<Rightarrow> [] | Some xs \<Rightarrow> xs)
             @ Text ''--'' # map Text workload"
      using off [OF that(1)] that(2) by simp
    then show ?thesis
      using flag_not_in_base [of dir] by (auto simp: JOULE_PROFILER_def)
  qed
  have on: "profiler_cmd dir workload rapl_polling extra_args =
        Inr (map Text [''sudo'', ''-S'', JOULE_PROFILER, ''simple'', ''--csv'',
               ''--jouleit-file'', csv_path dir]
             @ [Text ''--rapl-polling'', FloatRepr (1 / num_val v)]
             @ map Text (case extra_args of None \<Rightarrow> [] | Some xs \<Rightarrow> xs)
             @ Text ''--'' # map Text workload)"
    if "rapl_polling = Some v \<and> 0 < num_val v" for v
    using that by (auto simp: profiler_cmd_def hz_to_s_def py_truediv_def)
  show ?thesis using off absent on by blast
qed

theorem profiler_cmd_polling_flag_witness:
  "profiler_cmd ''/tmp/t'' [''python3'', ''nbody.py'', ''500''] None None =
     Inr (map Text [''sudo'', ''-S'', JOULE_PROFILER, ''simple'', ''--csv'', ''--jouleit-file'',
            ''/tmp/t/results.csv'', ''--'', ''python3'', ''nbody.py'', ''500''])
   \<and> profiler_cmd ''/tmp/t'' [''python3'', ''nbody.py'', ''500''] (Some (PInt 0)) None =
     Inr (map Text [''sudo'', ''-S'', JOULE_PROFILER, ''simple'', ''--csv'', ''--jouleit-file'',
            ''/tmp/t/results.csv'', ''--'', ''python3'', ''nbody.py'', ''500''])
   \<and> profiler_cmd ''/tmp/t'' [''python3'', ''nbody.py'', ''500''] (Some (PInt 1000)) None =
     Inr (map Text [''sudo'', ''-S'', JOULE_PROFILER, ''simple'', ''--csv'', ''--jouleit-file'',
            ''/tmp/t/results.csv'', ''--rapl-polling'']
          @ [FloatRepr (1 / 1000)]
          @ map Text [''--'', ''python3'', ''nbody.py'', ''500''])"
  using
    profiler_cmd_polling_flag [of None "''/tmp/t''" "[''python3'', ''nbody.py'', ''500'']" None]
    profiler_cmd_polling_flag [of "Some (PInt 0)" "''/tmp/t''"
      "[''python3'', ''nbody.py'', ''500'']" None]
    profiler_cmd_polling_flag [of "Some (PInt 1000)" "''/tmp/t''"
      "[''python3'', ''nbody.py'', ''500'']" None]
  by (simp add: csv_path_def)

text \<open>
  C10: for every strictly negative requested frequency, the command that
  \<^verbatim>\<open>run_joule_profiler\<close> builds has the polling flag with the value \<open>0\<close>: \<^verbatim>\<open>hz_to_s\<close>
  maps a negative frequency to 0, and only a frequency equal to 0 is replaced by
  \<^verbatim>\<open>None\<close>.
\<close>

theorem profiler_cmd_negative_polling:
  assumes "num_val v < 0"
  shows "profiler_cmd dir workload (Some v) extra_args =
    Inr (map Text [''sudo'', ''-S'', JOULE_PROFILER, ''simple'', ''--csv'',
               ''--jouleit-file'', csv_path dir]
         @ [Text ''--rapl-polling'', Text ''0'']
         @ map Text (case extra_args of None \<Rightarrow> [] | Some xs \<Rightarrow> xs)
         @ Text ''--'' # map Text workload)"
  using assms by (simp add: profiler_cmd_def hz_to_s_def str_int_zero)

theorem profiler_cmd_negative_polling_witness:
  "profiler_cmd ''/tmp/t'' [''python3'', ''nbody.py'', ''500''] (Some (PInt (- 10))) None =
    Inr (map Text [''sudo'', ''-S'', JOULE_PROFILER, ''simple'', ''--csv'', ''--jouleit-file'',
      ''/tmp/t/results.csv'', ''--rapl-polling'', ''0'', ''--'', ''python3'', ''nbody.py'',
      ''500''])"
  using profiler_cmd_negative_polling [of "PInt (- 10)" "''/tmp/t''"
      "[''python3'', ''nbody.py'', ''500'']" None]
  by (simp add: csv_path_def)

section \<open>Properties of an invocation and of the collection\<close>

lemma run_joule_profiler_subprocess:
  "\<exists>cmd. run_joule_profiler proc workload rapl_polling extra_args =
    (case subprocess_run proc cmd of
       Inl e \<Rightarrow> Inl e
     | Inr captured \<Rightarrow> read_csv (artifact proc))"
proof -
  obtain cmd where "profiler_cmd (tmpdir proc) workload rapl_polling extra_args = Inr cmd"
    using profiler_cmd_total by blast
  then show ?thesis by (auto simp: run_joule_profiler_def)
qed

lemma subprocess_run_nonzero:
  assumes "returncode proc \<noteq> 0"
  shows "\<exists>e. subprocess_run proc cmd = Inl e"
  using assms by (auto simp: subprocess_run_def split: option.splits)

lemma run_joule_profiler_nonzero:
  assumes "returncode proc \<noteq> 0"
  shows "\<exists>cmd e. run_joule_profiler proc workload rapl_polling extra_args = Inl e
    \<and> subprocess_run proc cmd = Inl e"
proof -
  obtain cmd where run: "run_joule_profiler proc workload rapl_polling extra_args =
    (case subprocess_run proc cmd of
       Inl e \<Rightarrow> Inl e
     | Inr captured \<Rightarrow> read_csv (artifact proc))"
    using run_joule_profiler_subprocess by blast
  obtain e where "subprocess_run proc cmd = Inl e"
    using subprocess_run_nonzero [OF assms] by blast
  with run show ?thesis by auto
qed




lemma run_trials_fail_fast:
  assumes "run_trials os workload polling n c acc = (r, c')"
  shows "c \<le> c' \<and> (\<forall>k. c \<le> k \<and> k < c' \<and> returncode (os k) \<noteq> 0 \<longrightarrow>
    (\<exists>cmd e. r = Inl e \<and> subprocess_run (os k) cmd = Inl e) \<and> c' = Suc k)"
  using assms
proof (induction n arbitrary: c acc)
  case 0
  then show ?case by auto
next
  case (Suc n)
  show ?case
  proof (cases "run_joule_profiler (os c) workload (Some (PInt polling)) None")
    case (Inl e)
    with Suc.prems have r: "r = Inl e" and c': "c' = Suc c" by auto
    have "\<exists>cmd e. r = Inl e \<and> subprocess_run (os k) cmd = Inl e"
      if "c \<le> k" "k < c'" "returncode (os k) \<noteq> 0" for k
    proof -
      from that c' have "k = c" by simp
      with run_joule_profiler_nonzero [of "os c" workload "Some (PInt polling)" None] that Inl r
      show ?thesis by auto
    qed
    with c' show ?thesis by auto
  next
    case (Inr res)
    have zero: "returncode (os c) = 0"
    proof (rule ccontr)
      assume "returncode (os c) \<noteq> 0"
      from run_joule_profiler_nonzero [OF this, of workload "Some (PInt polling)" None] Inr
      show False by auto
    qed
    from Suc.prems Inr
    have rec: "run_trials os workload polling n (Suc c) (acc @ [res]) = (r, c')" by simp
    from Suc.IH [OF rec] have le: "Suc c \<le> c'"
      and IH: "\<And>k. Suc c \<le> k \<Longrightarrow> k < c' \<Longrightarrow> returncode (os k) \<noteq> 0 \<Longrightarrow>
        (\<exists>cmd e. r = Inl e \<and> subprocess_run (os k) cmd = Inl e) \<and> c' = Suc k"
      by auto
    have "(\<exists>cmd e. r = Inl e \<and> subprocess_run (os k) cmd = Inl e) \<and> c' = Suc k"
      if "c \<le> k" "k < c'" "returncode (os k) \<noteq> 0" for k
    proof -
      from that zero have "k \<noteq> c" by auto
      with that have "Suc c \<le> k" by simp
      from IH [OF this that(2,3)] show ?thesis .
    qed
    with le show ?thesis by auto
  qed
qed

lemma sweep_fail_fast:
  assumes "sweep os workload nb ps c dfs = (r, c')"
  shows "c \<le> c' \<and> (\<forall>k. c \<le> k \<and> k < c' \<and> returncode (os k) \<noteq> 0 \<longrightarrow>
    (\<exists>cmd e. r = Inl e \<and> subprocess_run (os k) cmd = Inl e) \<and> c' = Suc k)"
  using assms
proof (induction ps arbitrary: c dfs)
  case Nil
  then show ?case by auto
next
  case (Cons p ps)
  obtain r1 c1 where t: "run_trials os workload p nb c [] = (r1, c1)"
    by (cases "run_trials os workload p nb c []")
  note T = run_trials_fail_fast [OF t]
  show ?case
  proof (cases r1)
    case (Inl e)
    with Cons.prems t have "r = Inl e" "c' = c1" by auto
    with T Inl show ?thesis by auto
  next
    case (Inr iter_dfs)
    have nofail: "returncode (os k) = 0" if "c \<le> k" "k < c1" for k
      using T that Inr by auto
    show ?thesis
    proof (cases "pl_concat_csv iter_dfs")
      case (Inl e)
      with Cons.prems t Inr have "r = Inl e" "c' = c1" by auto
      with T nofail show ?thesis by auto
    next
      case cc: (Inr df_polling)
      show ?thesis
      proof (cases "df_polling = []")
        case True
        with Cons.prems t Inr cc have "r = Inl InvalidOperationError" "c' = c1" by auto
        with T nofail show ?thesis by auto
      next
        case False
        with Cons.prems t Inr cc
        have rec: "sweep os workload nb ps c1 (dfs @ [map (tag_polling p) df_polling]) = (r, c')"
          by simp
        from Cons.IH [OF rec] have le: "c1 \<le> c'"
          and IH: "\<And>k. c1 \<le> k \<Longrightarrow> k < c' \<Longrightarrow> returncode (os k) \<noteq> 0 \<Longrightarrow>
            (\<exists>cmd e. r = Inl e \<and> subprocess_run (os k) cmd = Inl e) \<and> c' = Suc k"
          by auto
        have "(\<exists>cmd e. r = Inl e \<and> subprocess_run (os k) cmd = Inl e) \<and> c' = Suc k"
          if "c \<le> k" "k < c'" "returncode (os k) \<noteq> 0" for k
        proof -
          from that nofail have "c1 \<le> k" by (meson not_le)
          from IH [OF this that(2,3)] show ?thesis .
        qed
        with le T show ?thesis by auto
      qed
    qed
  qed
qed

text \<open>
  C8 (as stated): the first invocation exits with status 1, but its standard error is
  not text. \<^verbatim>\<open>generate_iters\<close> raises \<open>UnicodeDecodeError\<close>, which carries no captured
  standard error, and not the \<open>CalledProcessError\<close> of the failed invocation.
\<close>

theorem generate_iters_undecodable_counterexample:
  "generate_iters
     (\<lambda>k. \<lparr>tmpdir = ''/tmp/t'', returncode = 1, stdout = Some [], stderr = None,
            artifact = Missing\<rparr>)
     2 [0, 10] 500 = (Inl UnicodeDecodeError, 1)
   \<and> captured_stderr UnicodeDecodeError = None"
  by (simp add: generate_iters_def eval_nat_numeral run_joule_profiler_def profiler_cmd_def
      hz_to_s_def subprocess_run_def)

text \<open>
  C8 (amended): in every run of \<^verbatim>\<open>generate_iters\<close>, if an invocation of the profiler
  that the run starts exits with a non-zero status, the run raises an exception and
  returns no table, so no row can be aggregated from it, and that invocation is the
  last one the run starts (the collection aborts). When the captured output of that
  invocation is text, the exception is the \<open>CalledProcessError\<close> of the invocation,
  which carries its captured standard error; when it is not text, the exception is
  \<open>UnicodeDecodeError\<close>.
\<close>

theorem generate_iters_fail_fast:
  assumes "generate_iters os nb_iterations polling_function nbody_value = (res, calls)"
    and "k < calls" and "returncode (os k) \<noteq> 0"
  shows "calls = Suc k
    \<and> (\<exists>e. res = Inl e)
    \<and> (\<forall>out err. stdout (os k) = Some out \<and> stderr (os k) = Some err \<longrightarrow>
         (\<exists>cmd. res = Inl (CalledProcessError (returncode (os k)) cmd out err))
         \<and> (\<exists>e. res = Inl e \<and> captured_stderr e = Some err))
    \<and> (stdout (os k) = None \<or> stderr (os k) = None \<longrightarrow> res = Inl UnicodeDecodeError)"
proof -
  obtain r c where s: "sweep os [''python3'', ''nbody.py'', str_int nbody_value]
      (nat nb_iterations) polling_function 0 [] = (r, c)"
    by (cases "sweep os [''python3'', ''nbody.py'', str_int nbody_value]
      (nat nb_iterations) polling_function 0 []")
  from assms(1) s have calls: "calls = c"
    by (auto simp: generate_iters_def split: sum.splits)
  from sweep_fail_fast [OF s] assms(2,3) calls
  obtain cmd e where r: "r = Inl e" and e: "subprocess_run (os k) cmd = Inl e"
    and c: "c = Suc k"
    by auto
  from assms(1) s r have res: "res = Inl e" by (simp add: generate_iters_def)
  have decoded: "(\<exists>cmd. res = Inl (CalledProcessError (returncode (os k)) cmd out err))
      \<and> (\<exists>e. res = Inl e \<and> captured_stderr e = Some err)"
    if "stdout (os k) = Some out \<and> stderr (os k) = Some err" for out err
    using that e res assms(3) by (auto simp: subprocess_run_def)
  have undecoded: "res = Inl UnicodeDecodeError"
    if "stdout (os k) = None \<or> stderr (os k) = None"
    using that e res by (auto simp: subprocess_run_def split: option.splits)
  from c calls res decoded undecoded show ?thesis by blast
qed

theorem generate_iters_fail_fast_witness:
  "\<exists>cmd. generate_iters
     (\<lambda>k. \<lparr>tmpdir = ''/tmp/t'', returncode = (if k = 2 then 1 else 0), stdout = Some [],
            stderr = Some (if k = 2 then ''boom'' else []),
            artifact = Table [\<lparr>csv_CORE_0 = Fin 2500000, csv_measure_delta = Fin 2000,
              csv_measure_count = Fin 10, csv_duration_ms = Fin 20,
              csv_command = ''python3 nbody.py 500'', csv_exit_code = 0\<rparr>]\<rparr>)
     2 [0, 10] 500 = (Inl (CalledProcessError 1 cmd [] ''boom''), 3)"
proof -
  let ?os = "\<lambda>k::nat. \<lparr>tmpdir = ''/tmp/t'', returncode = (if k = 2 then 1 else 0::int),
            stdout = Some [], stderr = Some (if k = 2 then ''boom'' else []),
            artifact = Table [\<lparr>csv_CORE_0 = Fin 2500000, csv_measure_delta = Fin 2000,
              csv_measure_count = Fin 10, csv_duration_ms = Fin 20,
              csv_command = ''python3 nbody.py 500'', csv_exit_code = 0\<rparr>]\<rparr>"
  obtain res calls where g: "generate_iters ?os 2 [0, 10] 500 = (res, calls)"
    by (cases "generate_iters ?os 2 [0, 10] 500")
  have "snd (generate_iters ?os 2 [0, 10] 500) = 3"
    by (simp add: generate_iters_def eval_nat_numeral run_joule_profiler_def profiler_cmd_def
        hz_to_s_def py_truediv_def pl_concat_csv_def subprocess_run_def)
  with g have calls: "calls = 3" by simp
  have k: "(2::nat) < calls" using calls by simp
  have rc: "returncode (?os 2) \<noteq> 0" by simp
  from generate_iters_fail_fast [OF g k rc]
  obtain cmd where "res = Inl (CalledProcessError 1 cmd [] ''boom'')" by auto
  with g calls show ?thesis by auto
qed

section \<open>Properties of the aggregation\<close>

lemma pl_mean_single: "pl_mean [x] = x"
  by (cases x) (simp_all add: pl_mean_def)

text \<open>
  C1: in every table that \<^verbatim>\<open>df_aggregate\<close> returns, every row whose
  \<open>expected_frequency\<close> is 0 has \<open>real_frequency\<close> exactly 0, whatever the mean
  \<open>measure_delta\<close> of the row is (finite, zero, infinite or NaN).
\<close>

theorem df_aggregate_zero_override:
  assumes "a \<in> set (df_aggregate df)" and "expected_frequency a = 0"
  shows "real_frequency a = Fin 0"
  using assms by (auto simp: df_aggregate_def Let_def)

theorem df_aggregate_zero_override_witness:
  "real_frequency (df_aggregate
     [\<lparr>expected_frequency = 0, CORE_0 = Fin 2500000, measure_delta = Fin 2,
       measure_count = Fin 10, duration_ms = Fin 20\<rparr>] ! 0) = Fin 0"
proof -
  let ?df = "[\<lparr>expected_frequency = 0, CORE_0 = Fin 2500000, measure_delta = Fin 2,
       measure_count = Fin 10, duration_ms = Fin 20\<rparr>]"
  have m: "df_aggregate ?df ! 0 \<in> set (df_aggregate ?df)"
    by (simp add: df_aggregate_def)
  have e: "expected_frequency (df_aggregate ?df ! 0) = 0"
    by (simp add: df_aggregate_def)
  show ?thesis by (rule df_aggregate_zero_override [OF m e])
qed

text \<open>
  C4 (as stated): a row with the non-zero frequency 1000 and a mean \<open>measure_delta\<close> of
  exactly 0 raises nothing; \<^verbatim>\<open>df_aggregate\<close> returns a row whose \<open>real_frequency\<close> is
  infinite.
\<close>

theorem df_aggregate_zero_delta_counterexample:
  "df_aggregate
     [\<lparr>expected_frequency = 1000, CORE_0 = Fin 2500000, measure_delta = Fin 0,
       measure_count = Fin 10, duration_ms = Fin 20\<rparr>]
   = [\<lparr>expected_frequency = 1000, CORE_0 = Fin 2500000, measure_delta = Fin 0,
       real_frequency = PInf, core_energy = Fin (5 / 2)\<rparr>]"
  by (simp add: df_aggregate_def MICRO_JOULE_TO_JOULE_RATIO_def)

text \<open>
  C4 (amended): for every input table with a row whose mean \<open>measure_delta\<close> is exactly
  0, \<^verbatim>\<open>df_aggregate\<close> raises no error and returns a table with one row for each
  input row, in which the \<open>real_frequency\<close> of that row is 0 when its
  \<open>expected_frequency\<close> is 0 and infinite otherwise.
\<close>

theorem df_aggregate_zero_delta:
  assumes "i < length df" and "measure_delta (df ! i) = Fin 0"
  shows "length (df_aggregate df) = length df
    \<and> real_frequency (df_aggregate df ! i) =
        (if expected_frequency (df ! i) = 0 then Fin 0 else PInf)
    \<and> (expected_frequency (df ! i) \<noteq> 0 \<longrightarrow>
         is_infinite (real_frequency (df_aggregate df ! i)))"
  using assms by (simp add: df_aggregate_def Let_def)

theorem df_aggregate_zero_delta_witness:
  "real_frequency (df_aggregate
     [\<lparr>expected_frequency = 0, CORE_0 = Fin 1, measure_delta = Fin 0,
       measure_count = Fin 10, duration_ms = Fin 20\<rparr>,
      \<lparr>expected_frequency = 10, CORE_0 = Fin 1, measure_delta = Fin 0,
       measure_count = Fin 10, duration_ms = Fin 20\<rparr>] ! 1) = PInf
   \<and> real_frequency (df_aggregate
     [\<lparr>expected_frequency = 0, CORE_0 = Fin 1, measure_delta = Fin 0,
       measure_count = Fin 10, duration_ms = Fin 20\<rparr>,
      \<lparr>expected_frequency = 10, CORE_0 = Fin 1, measure_delta = Fin 0,
       measure_count = Fin 10, duration_ms = Fin 20\<rparr>] ! 0) = Fin 0"
  using
    df_aggregate_zero_delta [of 1 "[\<lparr>expected_frequency = 0, CORE_0 = Fin 1,
       measure_delta = Fin 0, measure_count = Fin 10, duration_ms = Fin 20\<rparr>,
      \<lparr>expected_frequency = 10, CORE_0 = Fin 1, measure_delta = Fin 0,
       measure_count = Fin 10, duration_ms = Fin 20\<rparr>]"]
    df_aggregate_zero_delta [of 0 "[\<lparr>expected_frequency = 0, CORE_0 = Fin 1,
       measure_delta = Fin 0, measure_count = Fin 10, duration_ms = Fin 20\<rparr>,
      \<lparr>expected_frequency = 10, CORE_0 = Fin 1, measure_delta = Fin 0,
       measure_count = Fin 10, duration_ms = Fin 20\<rparr>]"]
  by simp

text \<open>
  C5: for every row of the grouped table, \<^verbatim>\<open>df_aggregate\<close> computes \<open>core_energy\<close> as
  \<open>CORE_0 / 1000000\<close> and, when the \<open>expected_frequency\<close> of the row is not 0,
  \<open>real_frequency\<close> as \<open>1000 / measure_delta\<close>; on finite cells these are the quotients
  of the reals. In particular, grouping and aggregating a table of one trial with a
  non-zero frequency gives one row whose \<open>real_frequency\<close> is 1000 divided by the
  \<open>measure_delta\<close> of that trial: the mean of one value is that value.
\<close>

theorem df_aggregate_metrics:
  "(i < length df \<longrightarrow>
      core_energy (df_aggregate df ! i) = fdiv (CORE_0 (df ! i)) (Fin 1000000)
      \<and> (\<forall>e. CORE_0 (df ! i) = Fin e \<longrightarrow> core_energy (df_aggregate df ! i) = Fin (e / 1000000))
      \<and> (expected_frequency (df ! i) \<noteq> 0 \<longrightarrow>
           real_frequency (df_aggregate df ! i) = fdiv (Fin 1000) (measure_delta (df ! i))
           \<and> (\<forall>d. measure_delta (df ! i) = Fin d \<and> d \<noteq> 0 \<longrightarrow>
                 real_frequency (df_aggregate df ! i) = Fin (1000 / d))))
   \<and> (expected_frequency t \<noteq> 0 \<longrightarrow>
        df_aggregate (df_group_by_expected_frequency (df_removed_unused_columns [t])) =
          [\<lparr>expected_frequency = expected_frequency t, CORE_0 = CORE_0 t,
            measure_delta = measure_delta t,
            real_frequency = fdiv (Fin 1000) (measure_delta t),
            core_energy = fdiv (CORE_0 t) (Fin 1000000)\<rparr>])"
  by (auto simp: df_aggregate_def Let_def MICRO_JOULE_TO_JOULE_RATIO_def
      df_group_by_expected_frequency_def df_removed_unused_columns_def pl_mean_single)

theorem df_aggregate_metrics_witness:
  "core_energy (df_aggregate
     [\<lparr>expected_frequency = 1000, CORE_0 = Fin 2500000, measure_delta = Fin 2,
       measure_count = Fin 10, duration_ms = Fin 20\<rparr>] ! 0) = Fin (5 / 2)
   \<and> real_frequency (df_aggregate
     [\<lparr>expected_frequency = 1000, CORE_0 = Fin 2500000, measure_delta = Fin 2,
       measure_count = Fin 10, duration_ms = Fin 20\<rparr>] ! 0) = Fin 500
   \<and> df_aggregate (df_group_by_expected_frequency (df_removed_unused_columns
       [\<lparr>expected_frequency = 1000, CORE_0 = Fin 2500000, measure_delta = Fin 2,
         measure_count = Fin 10, duration_ms = Fin 20, command = ''python3 nbody.py 500'',
         exit_code = 0\<rparr>])) =
       [\<lparr>expected_frequency = 1000, CORE_0 = Fin 2500000, measure_delta = Fin 2,
         real_frequency = Fin 500, core_energy = Fin (5 / 2)\<rparr>]"
  using df_aggregate_metrics [of 0
      "[\<lparr>expected_frequency = 1000, CORE_0 = Fin 2500000, measure_delta = Fin 2,
       measure_count = Fin 10, duration_ms = Fin 20\<rparr>]"
      "\<lparr>expected_frequency = 1000, CORE_0 = Fin 2500000, measure_delta = Fin 2,
         measure_count = Fin 10, duration_ms = Fin 20, command = ''python3 nbody.py 500'',
         exit_code = 0\<rparr>"]
  by simp

section \<open>Order of the rows\<close>






















end
